theory Spec2Isabelle
  imports
    Main
    "HOL-Library.List_Lexorder"
    "HOL-Library.Product_Lexorder"
    "HOL-Library.Sublist"
begin

section \<open>Python values used by both applications\<close>

text \<open>
  A Python 3 \<^verbatim>\<open>str\<close> is a sequence of Unicode code points, compared
  lexicographically by code point. It is modelled as a list of naturals; the order of
  the theory List_Lexorder is that comparison. \<open>lit\<close> turns an ASCII
  literal into such a sequence; literals of the source written in Cyrillic are given by
  their code points.
\<close>

type_synonym str = "nat list"

definition lit :: "string \<Rightarrow> str" where
  "lit s = map of_char s"

text \<open>
  \<^verbatim>\<open>str.lower()\<close> is a built-in of CPython, modelled here as CPython 3.11
  computes it from the Unicode 14.0.0 database. Three tables of that database are used.
  An entry \<open>(lo, hi, step, target)\<close> of \<open>lower_table\<close> says that the code points
  \<open>lo, lo + step, ...\<close> up to \<open>hi\<close> have the lower-case code points
  \<open>target, target + step, ...\<close>; a code point in no entry is its own lower case. The
  other two tables list, as inclusive ranges, the code points with the properties Cased
  and Case_Ignorable.
\<close>

definition lower_table :: "(nat \<times> nat \<times> nat \<times> nat) list" where
  "lower_table =
     [
      (65, 90, 1, 97), (192, 214, 1, 224), (216, 222, 1, 248), (256, 302, 2, 257), (306, 310, 2,
      307), (313, 327, 2, 314), (330, 374, 2, 331), (376, 376, 1, 255), (377, 381, 2, 378),
      (385, 385, 1, 595), (386, 388, 2, 387), (390, 390, 1, 596), (391, 391, 1, 392), (393, 394,
      1, 598), (395, 395, 1, 396), (398, 398, 1, 477), (399, 399, 1, 601), (400, 400, 1, 603),
      (401, 401, 1, 402), (403, 403, 1, 608), (404, 404, 1, 611), (406, 406, 1, 617), (407, 407,
      1, 616), (408, 408, 1, 409), (412, 412, 1, 623), (413, 413, 1, 626), (415, 415, 1, 629),
      (416, 420, 2, 417), (422, 422, 1, 640), (423, 423, 1, 424), (425, 425, 1, 643), (428, 428,
      1, 429), (430, 430, 1, 648), (431, 431, 1, 432), (433, 434, 1, 650), (435, 437, 2, 436),
      (439, 439, 1, 658), (440, 440, 1, 441), (444, 444, 1, 445), (452, 452, 1, 454), (453, 453,
      1, 454), (455, 455, 1, 457), (456, 456, 1, 457), (458, 458, 1, 460), (459, 475, 2, 460),
      (478, 494, 2, 479), (497, 497, 1, 499), (498, 500, 2, 499), (502, 502, 1, 405), (503, 503,
      1, 447), (504, 542, 2, 505), (544, 544, 1, 414), (546, 562, 2, 547), (570, 570, 1, 11365),
      (571, 571, 1, 572), (573, 573, 1, 410), (574, 574, 1, 11366), (577, 577, 1, 578), (579,
      579, 1, 384), (580, 580, 1, 649), (581, 581, 1, 652), (582, 590, 2, 583), (880, 882, 2,
      881), (886, 886, 1, 887), (895, 895, 1, 1011), (902, 902, 1, 940), (904, 906, 1, 941),
      (908, 908, 1, 972), (910, 911, 1, 973), (913, 929, 1, 945), (931, 939, 1, 963), (975, 975,
      1, 983), (984, 1006, 2, 985), (1012, 1012, 1, 952), (1015, 1015, 1, 1016), (1017, 1017, 1,
      1010), (1018, 1018, 1, 1019), (1021, 1023, 1, 891), (1024, 1039, 1, 1104), (1040, 1071, 1,
      1072), (1120, 1152, 2, 1121), (1162, 1214, 2, 1163), (1216, 1216, 1, 1231), (1217, 1229,
      2, 1218), (1232, 1326, 2, 1233), (1329, 1366, 1, 1377), (4256, 4293, 1, 11520), (4295,
      4295, 1, 11559), (4301, 4301, 1, 11565), (5024, 5103, 1, 43888), (5104, 5109, 1, 5112),
      (7312, 7354, 1, 4304), (7357, 7359, 1, 4349), (7680, 7828, 2, 7681), (7838, 7838, 1, 223),
      (7840, 7934, 2, 7841), (7944, 7951, 1, 7936), (7960, 7965, 1, 7952), (7976, 7983, 1,
      7968), (7992, 7999, 1, 7984), (8008, 8013, 1, 8000), (8025, 8031, 2, 8017), (8040, 8047,
      1, 8032), (8072, 8079, 1, 8064), (8088, 8095, 1, 8080), (8104, 8111, 1, 8096), (8120,
      8121, 1, 8112), (8122, 8123, 1, 8048), (8124, 8124, 1, 8115), (8136, 8139, 1, 8050),
      (8140, 8140, 1, 8131), (8152, 8153, 1, 8144), (8154, 8155, 1, 8054), (8168, 8169, 1,
      8160), (8170, 8171, 1, 8058), (8172, 8172, 1, 8165), (8184, 8185, 1, 8056), (8186, 8187,
      1, 8060), (8188, 8188, 1, 8179), (8486, 8486, 1, 969), (8490, 8490, 1, 107), (8491, 8491,
      1, 229), (8498, 8498, 1, 8526), (8544, 8559, 1, 8560), (8579, 8579, 1, 8580), (9398, 9423,
      1, 9424), (11264, 11311, 1, 11312), (11360, 11360, 1, 11361), (11362, 11362, 1, 619),
      (11363, 11363, 1, 7549), (11364, 11364, 1, 637), (11367, 11371, 2, 11368), (11373, 11373,
      1, 593), (11374, 11374, 1, 625), (11375, 11375, 1, 592), (11376, 11376, 1, 594), (11378,
      11378, 1, 11379), (11381, 11381, 1, 11382), (11390, 11391, 1, 575), (11392, 11490, 2,
      11393), (11499, 11501, 2, 11500), (11506, 11506, 1, 11507), (42560, 42604, 2, 42561),
      (42624, 42650, 2, 42625), (42786, 42798, 2, 42787), (42802, 42862, 2, 42803), (42873,
      42875, 2, 42874), (42877, 42877, 1, 7545), (42878, 42886, 2, 42879), (42891, 42891, 1,
      42892), (42893, 42893, 1, 613), (42896, 42898, 2, 42897), (42902, 42920, 2, 42903),
      (42922, 42922, 1, 614), (42923, 42923, 1, 604), (42924, 42924, 1, 609), (42925, 42925, 1,
      620), (42926, 42926, 1, 618), (42928, 42928, 1, 670), (42929, 42929, 1, 647), (42930,
      42930, 1, 669), (42931, 42931, 1, 43859), (42932, 42946, 2, 42933), (42948, 42948, 1,
      42900), (42949, 42949, 1, 642), (42950, 42950, 1, 7566), (42951, 42953, 2, 42952), (42960,
      42960, 1, 42961), (42966, 42968, 2, 42967), (42997, 42997, 1, 42998), (65313, 65338, 1,
      65345), (66560, 66599, 1, 66600), (66736, 66771, 1, 66776), (66928, 66964, 2, 66967),
      (66929, 66937, 2, 66968), (66941, 66953, 2, 66980), (66957, 66961, 2, 66996), (66965,
      66965, 1, 67004), (68736, 68786, 1, 68800), (71840, 71871, 1, 71872), (93760, 93791, 1,
      93792), (125184, 125217, 1, 125218)
     ]"

definition cased_table :: "(nat \<times> nat) list" where
  "cased_table =
     [
      (65, 90), (97, 122), (170, 170), (181, 181), (186, 186), (192, 214), (216, 246), (248,
      442), (444, 447), (452, 659), (661, 696), (704, 705), (736, 740), (837, 837), (880, 883),
      (886, 887), (890, 893), (895, 895), (902, 902), (904, 906), (908, 908), (910, 929), (931,
      1013), (1015, 1153), (1162, 1327), (1329, 1366), (1376, 1416), (4256, 4293), (4295, 4295),
      (4301, 4301), (4304, 4346), (4349, 4351), (5024, 5109), (5112, 5117), (7296, 7304), (7312,
      7354), (7357, 7359), (7424, 7615), (7680, 7957), (7960, 7965), (7968, 8005), (8008, 8013),
      (8016, 8023), (8025, 8025), (8027, 8027), (8029, 8029), (8031, 8061), (8064, 8116), (8118,
      8124), (8126, 8126), (8130, 8132), (8134, 8140), (8144, 8147), (8150, 8155), (8160, 8172),
      (8178, 8180), (8182, 8188), (8305, 8305), (8319, 8319), (8336, 8348), (8450, 8450), (8455,
      8455), (8458, 8467), (8469, 8469), (8473, 8477), (8484, 8484), (8486, 8486), (8488, 8488),
      (8490, 8493), (8495, 8500), (8505, 8505), (8508, 8511), (8517, 8521), (8526, 8526), (8544,
      8575), (8579, 8580), (9398, 9449), (11264, 11492), (11499, 11502), (11506, 11507), (11520,
      11557), (11559, 11559), (11565, 11565), (42560, 42605), (42624, 42653), (42786, 42887),
      (42891, 42894), (42896, 42954), (42960, 42961), (42963, 42963), (42965, 42969), (42997,
      42998), (43000, 43002), (43824, 43866), (43868, 43880), (43888, 43967), (64256, 64262),
      (64275, 64279), (65313, 65338), (65345, 65370), (66560, 66639), (66736, 66771), (66776,
      66811), (66928, 66938), (66940, 66954), (66956, 66962), (66964, 66965), (66967, 66977),
      (66979, 66993), (66995, 67001), (67003, 67004), (67456, 67456), (67459, 67461), (67463,
      67504), (67506, 67514), (68736, 68786), (68800, 68850), (71840, 71903), (93760, 93823),
      (119808, 119892), (119894, 119964), (119966, 119967), (119970, 119970), (119973, 119974),
      (119977, 119980), (119982, 119993), (119995, 119995), (119997, 120003), (120005, 120069),
      (120071, 120074), (120077, 120084), (120086, 120092), (120094, 120121), (120123, 120126),
      (120128, 120132), (120134, 120134), (120138, 120144), (120146, 120485), (120488, 120512),
      (120514, 120538), (120540, 120570), (120572, 120596), (120598, 120628), (120630, 120654),
      (120656, 120686), (120688, 120712), (120714, 120744), (120746, 120770), (120772, 120779),
      (122624, 122633), (122635, 122654), (125184, 125251), (127280, 127305), (127312, 127337),
      (127344, 127369)
     ]"

definition case_ignorable_table :: "(nat \<times> nat) list" where
  "case_ignorable_table =
     [
      (39, 39), (46, 46), (58, 58), (94, 94), (96, 96), (168, 168), (173, 173), (175, 175),
      (180, 180), (183, 184), (688, 879), (884, 885), (890, 890), (900, 901), (903, 903), (1155,
      1161), (1369, 1369), (1375, 1375), (1425, 1469), (1471, 1471), (1473, 1474), (1476, 1477),
      (1479, 1479), (1524, 1524), (1536, 1541), (1552, 1562), (1564, 1564), (1600, 1600), (1611,
      1631), (1648, 1648), (1750, 1757), (1759, 1768), (1770, 1773), (1807, 1807), (1809, 1809),
      (1840, 1866), (1958, 1968), (2027, 2037), (2042, 2042), (2045, 2045), (2070, 2093), (2137,
      2139), (2184, 2184), (2192, 2193), (2200, 2207), (2249, 2306), (2362, 2362), (2364, 2364),
      (2369, 2376), (2381, 2381), (2385, 2391), (2402, 2403), (2417, 2417), (2433, 2433), (2492,
      2492), (2497, 2500), (2509, 2509), (2530, 2531), (2558, 2558), (2561, 2562), (2620, 2620),
      (2625, 2626), (2631, 2632), (2635, 2637), (2641, 2641), (2672, 2673), (2677, 2677), (2689,
      2690), (2748, 2748), (2753, 2757), (2759, 2760), (2765, 2765), (2786, 2787), (2810, 2815),
      (2817, 2817), (2876, 2876), (2879, 2879), (2881, 2884), (2893, 2893), (2901, 2902), (2914,
      2915), (2946, 2946), (3008, 3008), (3021, 3021), (3072, 3072), (3076, 3076), (3132, 3132),
      (3134, 3136), (3142, 3144), (3146, 3149), (3157, 3158), (3170, 3171), (3201, 3201), (3260,
      3260), (3263, 3263), (3270, 3270), (3276, 3277), (3298, 3299), (3328, 3329), (3387, 3388),
      (3393, 3396), (3405, 3405), (3426, 3427), (3457, 3457), (3530, 3530), (3538, 3540), (3542,
      3542), (3633, 3633), (3636, 3642), (3654, 3662), (3761, 3761), (3764, 3772), (3782, 3782),
      (3784, 3789), (3864, 3865), (3893, 3893), (3895, 3895), (3897, 3897), (3953, 3966), (3968,
      3972), (3974, 3975), (3981, 3991), (3993, 4028), (4038, 4038), (4141, 4144), (4146, 4151),
      (4153, 4154), (4157, 4158), (4184, 4185), (4190, 4192), (4209, 4212), (4226, 4226), (4229,
      4230), (4237, 4237), (4253, 4253), (4348, 4348), (4957, 4959), (5906, 5908), (5938, 5939),
      (5970, 5971), (6002, 6003), (6068, 6069), (6071, 6077), (6086, 6086), (6089, 6099), (6103,
      6103), (6109, 6109), (6155, 6159), (6211, 6211), (6277, 6278), (6313, 6313), (6432, 6434),
      (6439, 6440), (6450, 6450), (6457, 6459), (6679, 6680), (6683, 6683), (6742, 6742), (6744,
      6750), (6752, 6752), (6754, 6754), (6757, 6764), (6771, 6780), (6783, 6783), (6823, 6823),
      (6832, 6862), (6912, 6915), (6964, 6964), (6966, 6970), (6972, 6972), (6978, 6978), (7019,
      7027), (7040, 7041), (7074, 7077), (7080, 7081), (7083, 7085), (7142, 7142), (7144, 7145),
      (7149, 7149), (7151, 7153), (7212, 7219), (7222, 7223), (7288, 7293), (7376, 7378), (7380,
      7392), (7394, 7400), (7405, 7405), (7412, 7412), (7416, 7417), (7468, 7530), (7544, 7544),
      (7579, 7679), (8125, 8125), (8127, 8129), (8141, 8143), (8157, 8159), (8173, 8175), (8189,
      8190), (8203, 8207), (8216, 8217), (8228, 8228), (8231, 8231), (8234, 8238), (8288, 8292),
      (8294, 8303), (8305, 8305), (8319, 8319), (8336, 8348), (8400, 8432), (11388, 11389),
      (11503, 11505), (11631, 11631), (11647, 11647), (11744, 11775), (11823, 11823), (12293,
      12293), (12330, 12333), (12337, 12341), (12347, 12347), (12441, 12446), (12540, 12542),
      (40981, 40981), (42232, 42237), (42508, 42508), (42607, 42610), (42612, 42621), (42623,
      42623), (42652, 42655), (42736, 42737), (42752, 42785), (42864, 42864), (42888, 42890),
      (42994, 42996), (43000, 43001), (43010, 43010), (43014, 43014), (43019, 43019), (43045,
      43046), (43052, 43052), (43204, 43205), (43232, 43249), (43263, 43263), (43302, 43309),
      (43335, 43345), (43392, 43394), (43443, 43443), (43446, 43449), (43452, 43453), (43471,
      43471), (43493, 43494), (43561, 43566), (43569, 43570), (43573, 43574), (43587, 43587),
      (43596, 43596), (43632, 43632), (43644, 43644), (43696, 43696), (43698, 43700), (43703,
      43704), (43710, 43711), (43713, 43713), (43741, 43741), (43756, 43757), (43763, 43764),
      (43766, 43766), (43867, 43871), (43881, 43883), (44005, 44005), (44008, 44008), (44013,
      44013), (64286, 64286), (64434, 64450), (65024, 65039), (65043, 65043), (65056, 65071),
      (65106, 65106), (65109, 65109), (65279, 65279), (65287, 65287), (65294, 65294), (65306,
      65306), (65342, 65342), (65344, 65344), (65392, 65392), (65438, 65439), (65507, 65507),
      (65529, 65531), (66045, 66045), (66272, 66272), (66422, 66426), (67456, 67461), (67463,
      67504), (67506, 67514), (68097, 68099), (68101, 68102), (68108, 68111), (68152, 68154),
      (68159, 68159), (68325, 68326), (68900, 68903), (69291, 69292), (69446, 69456), (69506,
      69509), (69633, 69633), (69688, 69702), (69744, 69744), (69747, 69748), (69759, 69761),
      (69811, 69814), (69817, 69818), (69821, 69821), (69826, 69826), (69837, 69837), (69888,
      69890), (69927, 69931), (69933, 69940), (70003, 70003), (70016, 70017), (70070, 70078),
      (70089, 70092), (70095, 70095), (70191, 70193), (70196, 70196), (70198, 70199), (70206,
      70206), (70367, 70367), (70371, 70378), (70400, 70401), (70459, 70460), (70464, 70464),
      (70502, 70508), (70512, 70516), (70712, 70719), (70722, 70724), (70726, 70726), (70750,
      70750), (70835, 70840), (70842, 70842), (70847, 70848), (70850, 70851), (71090, 71093),
      (71100, 71101), (71103, 71104), (71132, 71133), (71219, 71226), (71229, 71229), (71231,
      71232), (71339, 71339), (71341, 71341), (71344, 71349), (71351, 71351), (71453, 71455),
      (71458, 71461), (71463, 71467), (71727, 71735), (71737, 71738), (71995, 71996), (71998,
      71998), (72003, 72003), (72148, 72151), (72154, 72155), (72160, 72160), (72193, 72202),
      (72243, 72248), (72251, 72254), (72263, 72263), (72273, 72278), (72281, 72283), (72330,
      72342), (72344, 72345), (72752, 72758), (72760, 72765), (72767, 72767), (72850, 72871),
      (72874, 72880), (72882, 72883), (72885, 72886), (73009, 73014), (73018, 73018), (73020,
      73021), (73023, 73029), (73031, 73031), (73104, 73105), (73109, 73109), (73111, 73111),
      (73459, 73460), (78896, 78904), (92912, 92916), (92976, 92982), (92992, 92995), (94031,
      94031), (94095, 94111), (94176, 94177), (94179, 94180), (110576, 110579), (110581,
      110587), (110589, 110590), (113821, 113822), (113824, 113827), (118528, 118573), (118576,
      118598), (119143, 119145), (119155, 119170), (119173, 119179), (119210, 119213), (119362,
      119364), (121344, 121398), (121403, 121452), (121461, 121461), (121476, 121476), (121499,
      121503), (121505, 121519), (122880, 122886), (122888, 122904), (122907, 122913), (122915,
      122916), (122918, 122922), (123184, 123197), (123566, 123566), (123628, 123631), (125136,
      125142), (125252, 125259), (127995, 127999), (917505, 917505), (917536, 917631), (917760,
      917999)
     ]"

definition lower_cp :: "nat \<Rightarrow> nat" where
  "lower_cp c =
     (case find (\<lambda>(lo, hi, step, target). lo \<le> c \<and> c \<le> hi \<and> (c - lo) mod step = 0)
             lower_table of
        None \<Rightarrow> c
      | Some (lo, hi, step, target) \<Rightarrow> target + (c - lo))"

definition in_ranges :: "nat \<Rightarrow> (nat \<times> nat) list \<Rightarrow> bool" where
  "in_ranges c table = list_ex (\<lambda>(lo, hi). lo \<le> c \<and> c \<le> hi) table"

definition cased :: "nat \<Rightarrow> bool" where
  "cased c = in_ranges c cased_table"

definition case_ignorable :: "nat \<Rightarrow> bool" where
  "case_ignorable c = in_ranges c case_ignorable_table"

text \<open>
  The full lower-case mapping of one code point: U+0130, the capital I with a dot above,
  is the only code point that becomes two, \<open>i\<close> and the combining dot U+0307.
\<close>

definition lower_full :: "nat \<Rightarrow> nat list" where
  "lower_full c = (if c = 304 then [105, 775] else [lower_cp c])"

text \<open>
  The capital sigma U+03A3 is lowered by its context: to the final sigma U+03C2 when a
  cased code point comes before it and none comes after it, case-ignorable code points
  being skipped on both sides, and to U+03C3 otherwise. \<open>before\<close> holds the code
  points in front of the sigma, the nearest first; \<open>after\<close> those behind it.
\<close>

definition handle_capital_sigma :: "nat list \<Rightarrow> nat list \<Rightarrow> nat" where
  "handle_capital_sigma before after =
     (case dropWhile case_ignorable before of
        [] \<Rightarrow> 963
      | p # _ \<Rightarrow>
          if cased p then
            (case dropWhile case_ignorable after of
               [] \<Rightarrow> 962
             | n # _ \<Rightarrow> if cased n then 963 else 962)
          else 963)"

definition lower_ucs4 :: "nat list \<Rightarrow> nat \<Rightarrow> nat list \<Rightarrow> nat list" where
  "lower_ucs4 before c after =
     (if c = 931 then [handle_capital_sigma before after] else lower_full c)"

fun do_lower :: "nat list \<Rightarrow> nat list \<Rightarrow> nat list" where
  "do_lower before [] = []"
| "do_lower before (c # rest) = lower_ucs4 before c rest @ do_lower (c # before) rest"

definition lower :: "str \<Rightarrow> str" where
  "lower s = do_lower [] s"

text \<open>
  \<^verbatim>\<open>str.strip()\<close> without argument removes leading and trailing white space, the
  code points for which \<^verbatim>\<open>str.isspace()\<close> holds.
\<close>

definition isspace_cp :: "nat \<Rightarrow> bool" where
  "isspace_cp c =
     ((9 \<le> c \<and> c \<le> 13) \<or> (28 \<le> c \<and> c \<le> 32) \<or> c = 133 \<or> c = 160 \<or> c = 5760
      \<or> (8192 \<le> c \<and> c \<le> 8202) \<or> c = 8232 \<or> c = 8233 \<or> c = 8239 \<or> c = 8287
      \<or> c = 12288)"

definition strip :: "str \<Rightarrow> str" where
  "strip s = rev (dropWhile isspace_cp (rev (dropWhile isspace_cp s)))"

text \<open>The substring test \<^verbatim>\<open>sub in s\<close> on strings.\<close>

fun str_contains :: "str \<Rightarrow> str \<Rightarrow> bool" where
  "str_contains sub [] = (sub = [])"
| "str_contains sub (c # cs) = (prefix sub (c # cs) \<or> str_contains sub cs)"

text \<open>The exceptions the modelled code can raise, each with its message.\<close>

datatype error = ValueError str | IndexError str | AttributeError str

text \<open>
  \<^verbatim>\<open>list.remove(x)\<close> deletes the first item equal to \<open>x\<close> and raises ValueError
  when there is none; \<^verbatim>\<open>list.index(x)\<close> returns the position of that item and
  raises ValueError when there is none; \<^verbatim>\<open>xs[i] = v\<close> raises IndexError out of
  range (indices here are never negative).
\<close>

fun list_remove :: "'a list \<Rightarrow> 'a \<Rightarrow> error + 'a list" where
  "list_remove [] x = Inl (ValueError (lit ''list.remove(x): x not in list''))"
| "list_remove (y # ys) x =
     (if y = x then Inr ys
      else (case list_remove ys x of Inl e \<Rightarrow> Inl e | Inr zs \<Rightarrow> Inr (y # zs)))"

fun list_index :: "'a list \<Rightarrow> 'a \<Rightarrow> error + nat" where
  "list_index [] x = Inl (ValueError (lit ''x is not in list''))"
| "list_index (y # ys) x =
     (if y = x then Inr 0
      else (case list_index ys x of Inl e \<Rightarrow> Inl e | Inr i \<Rightarrow> Inr (Suc i)))"

definition list_setitem :: "'a list \<Rightarrow> nat \<Rightarrow> 'a \<Rightarrow> error + 'a list" where
  "list_setitem xs i v =
     (if i < length xs then Inr (xs[i := v])
      else Inl (IndexError (lit ''list assignment index out of range'')))"

section \<open>lab3: the recipe book with commands, observers and strategies\<close>

subsection \<open>Recipe and RecipeMemento\<close>

record Recipe =
  name :: str
  ingredients :: "str list"
  instructions :: str
  preparation_time :: int

record RecipeMemento =
  memento_name :: str
  memento_ingredients :: "str list"
  memento_instructions :: str
  memento_preparation_time :: int

definition create_memento :: "Recipe \<Rightarrow> RecipeMemento" where
  "create_memento self =
     \<lparr>memento_name = name self, memento_ingredients = ingredients self,
      memento_instructions = instructions self,
      memento_preparation_time = preparation_time self\<rparr>"

definition restore_from_memento :: "Recipe \<Rightarrow> RecipeMemento \<Rightarrow> Recipe" where
  "restore_from_memento self memento =
     self\<lparr>name := memento_name memento, ingredients := memento_ingredients memento,
          instructions := memento_instructions memento,
          preparation_time := memento_preparation_time memento\<rparr>"

text \<open>
  Recipe defines no \<^verbatim>\<open>__eq__\<close>, so \<^verbatim>\<open>in\<close>, \<^verbatim>\<open>list.remove\<close> and
  \<^verbatim>\<open>list.index\<close> compare recipes by object identity. A recipe in a collection is
  therefore a reference, and the store gives the object behind each reference. No
  operation of the manager assigns to a field of a recipe, so the store is an argument
  that the operations read.
\<close>

type_synonym ref = nat
type_synonym store = "ref \<Rightarrow> Recipe"

subsection \<open>Sort strategies\<close>

text \<open>
  The two concrete strategies; the base class SortStrategy is never instantiated.
  \<^verbatim>\<open>sorted(recipes, key=...)\<close> is a stable sort by key, as \<open>sort_key\<close> is; Python
  compares the tuple key of SortByPreparationTime lexicographically, which is the order
  of the theory Product_Lexorder.
\<close>

datatype SortStrategy = SortByName | SortByPreparationTime

fun SortStrategy_sort :: "store \<Rightarrow> SortStrategy \<Rightarrow> ref list \<Rightarrow> ref list" where
  "SortStrategy_sort h SortByName recipes = sort_key (\<lambda>r. lower (name (h r))) recipes"
| "SortStrategy_sort h SortByPreparationTime recipes =
     sort_key (\<lambda>r. (preparation_time (h r), lower (name (h r)))) recipes"

subsection \<open>RecipeManager\<close>

text \<open>
  An observer is an object with an \<^verbatim>\<open>update()\<close> method, known here by its identity.
  The field \<open>update_calls\<close> is the trace of the calls of \<^verbatim>\<open>observer.update()\<close> made
  so far, oldest first; it is how notification is observed. The observer of the
  application, the main window, only reads the manager in \<^verbatim>\<open>update()\<close>, so a call
  changes nothing else.
\<close>

type_synonym observer = nat

record RecipeManager =
  recipes :: "ref list"
  observers :: "observer list"
  sort_strategy :: SortStrategy
  update_calls :: "observer list"

definition RecipeManager_init :: RecipeManager where
  "RecipeManager_init =
     \<lparr>recipes = [], observers = [], sort_strategy = SortByName, update_calls = []\<rparr>"

definition sort_recipes :: "store \<Rightarrow> RecipeManager \<Rightarrow> RecipeManager" where
  "sort_recipes h self = self\<lparr>recipes := SortStrategy_sort h (sort_strategy self) (recipes self)\<rparr>"

definition notify_observers :: "RecipeManager \<Rightarrow> RecipeManager" where
  "notify_observers self =
     self\<lparr>update_calls := foldl (\<lambda>calls ob. calls @ [ob]) (update_calls self) (observers self)\<rparr>"

definition add_recipe :: "store \<Rightarrow> RecipeManager \<Rightarrow> ref \<Rightarrow> RecipeManager" where
  "add_recipe h self recipe =
     notify_observers (sort_recipes h (self\<lparr>recipes := recipes self @ [recipe]\<rparr>))"

definition remove_recipe :: "RecipeManager \<Rightarrow> ref \<Rightarrow> error + RecipeManager" where
  "remove_recipe self recipe =
     (if recipe \<in> set (recipes self) then
        (case list_remove (recipes self) recipe of
           Inl e \<Rightarrow> Inl e
         | Inr rs \<Rightarrow> Inr (notify_observers (self\<lparr>recipes := rs\<rparr>)))
      else Inr self)"

definition update_recipe :: "store \<Rightarrow> RecipeManager \<Rightarrow> ref \<Rightarrow> ref \<Rightarrow> error + RecipeManager" where
  "update_recipe h self old_recipe new_recipe =
     (if old_recipe \<in> set (recipes self) then
        (case list_index (recipes self) old_recipe of
           Inl e \<Rightarrow> Inl e
         | Inr index \<Rightarrow>
             (case list_setitem (recipes self) index new_recipe of
                Inl e \<Rightarrow> Inl e
              | Inr rs \<Rightarrow> Inr (notify_observers (sort_recipes h (self\<lparr>recipes := rs\<rparr>)))))
      else Inr self)"

definition set_sort_strategy :: "store \<Rightarrow> RecipeManager \<Rightarrow> SortStrategy \<Rightarrow> RecipeManager" where
  "set_sort_strategy h self strategy =
     notify_observers (sort_recipes h (self\<lparr>sort_strategy := strategy\<rparr>))"

definition add_observer :: "RecipeManager \<Rightarrow> observer \<Rightarrow> RecipeManager" where
  "add_observer self ob = self\<lparr>observers := observers self @ [ob]\<rparr>"

definition remove_observer :: "RecipeManager \<Rightarrow> observer \<Rightarrow> error + RecipeManager" where
  "remove_observer self ob =
     (case list_remove (observers self) ob of
        Inl e \<Rightarrow> Inl e
      | Inr obs \<Rightarrow> Inr (self\<lparr>observers := obs\<rparr>))"

text \<open>
  A sequence of calls on one manager. A call that raises ends the sequence with its
  exception.
\<close>

datatype manager_call =
    AddRecipe ref
  | RemoveRecipe ref
  | UpdateRecipe ref ref
  | SetSortStrategy SortStrategy
  | AddObserver observer

fun call :: "store \<Rightarrow> RecipeManager \<Rightarrow> manager_call \<Rightarrow> error + RecipeManager" where
  "call h m (AddRecipe r) = Inr (add_recipe h m r)"
| "call h m (RemoveRecipe r) = remove_recipe m r"
| "call h m (UpdateRecipe old new) = update_recipe h m old new"
| "call h m (SetSortStrategy s) = Inr (set_sort_strategy h m s)"
| "call h m (AddObserver ob) = Inr (add_observer m ob)"

fun calls :: "store \<Rightarrow> RecipeManager \<Rightarrow> manager_call list \<Rightarrow> error + RecipeManager" where
  "calls h m [] = Inr m"
| "calls h m (c # cs) = (case call h m c of Inl e \<Rightarrow> Inl e | Inr m' \<Rightarrow> calls h m' cs)"

text \<open>
  The order the specification asks of the collection, in its words: by name without
  regard to case, or by ascending preparation time with the name, without regard to
  case, deciding between equal times.
\<close>

fun precedes :: "store \<Rightarrow> SortStrategy \<Rightarrow> ref \<Rightarrow> ref \<Rightarrow> bool" where
  "precedes h SortByName a b = (lower (name (h a)) \<le> lower (name (h b)))"
| "precedes h SortByPreparationTime a b =
     (preparation_time (h a) < preparation_time (h b)
      \<or> (preparation_time (h a) = preparation_time (h b)
          \<and> lower (name (h a)) \<le> lower (name (h b))))"

definition ordered :: "store \<Rightarrow> RecipeManager \<Rightarrow> bool" where
  "ordered h m = sorted_wrt (precedes h (sort_strategy m)) (recipes m)"

subsection \<open>Commands\<close>

text \<open>
  A command holds the manager it acts on and its recipes. The manager is the state that
  is passed along, so a command is its recipes. The base class Command, whose methods do
  nothing, is never instantiated.
\<close>

datatype Command =
    AddRecipeCommand ref
  | DeleteRecipeCommand ref
  | EditRecipeCommand ref ref

fun execute :: "store \<Rightarrow> RecipeManager \<Rightarrow> Command \<Rightarrow> error + RecipeManager" where
  "execute h manager (AddRecipeCommand recipe) = Inr (add_recipe h manager recipe)"
| "execute h manager (DeleteRecipeCommand recipe) = remove_recipe manager recipe"
| "execute h manager (EditRecipeCommand old_recipe new_recipe) =
     update_recipe h manager old_recipe new_recipe"

fun undo :: "store \<Rightarrow> RecipeManager \<Rightarrow> Command \<Rightarrow> error + RecipeManager" where
  "undo h manager (AddRecipeCommand recipe) = remove_recipe manager recipe"
| "undo h manager (DeleteRecipeCommand recipe) = Inr (add_recipe h manager recipe)"
| "undo h manager (EditRecipeCommand old_recipe new_recipe) =
     update_recipe h manager new_recipe old_recipe"

subsection \<open>Keyword search\<close>

record KeywordExpression =
  keyword :: str

definition KeywordExpression_init :: "str \<Rightarrow> KeywordExpression" where
  "KeywordExpression_init kw = \<lparr>keyword = lower kw\<rparr>"

definition KeywordExpression_interpret :: "KeywordExpression \<Rightarrow> Recipe \<Rightarrow> bool" where
  "KeywordExpression_interpret self recipe =
     (str_contains (keyword self) (lower (name recipe))
      \<or> list_ex (\<lambda>ing. str_contains (keyword self) (lower ing)) (ingredients recipe))"

text \<open>
  search_recipes is a method of the manager: it returns its result together with the
  manager as the call leaves it.
\<close>

definition search_recipes :: "store \<Rightarrow> RecipeManager \<Rightarrow> str \<Rightarrow> ref list \<times> RecipeManager" where
  "search_recipes h self query =
     (let expression = KeywordExpression_init query
      in (filter (\<lambda>r. KeywordExpression_interpret expression (h r)) (recipes self), self))"




text \<open>
  Texts without the capital sigma U+03A3 and without U+0130, the two code points that
  \<^verbatim>\<open>str.lower()\<close> does not lower one by one.
\<close>

definition no_special_casing :: "str \<Rightarrow> bool" where
  "no_special_casing s = list_all (\<lambda>c. c \<noteq> 931 \<and> c \<noteq> 304) s"


subsection \<open>Validators\<close>

text \<open>
  A validator holds its successor, or None. The messages are
  \<^verbatim>\<open>"Nazvanie obyazatel'no"\<close> (the name is required) and
  \<^verbatim>\<open>"Ingredienty obyazatel'ny"\<close> (the ingredients are required), written in
  Cyrillic in the source.
\<close>

datatype Validator =
    Validator "Validator option"
  | NameValidator "Validator option"
  | IngredientsValidator "Validator option"

definition name_required :: str where
  "name_required =
     [1053, 1072, 1079, 1074, 1072, 1085, 1080, 1077, 32,
      1086, 1073, 1103, 1079, 1072, 1090, 1077, 1083, 1100, 1085, 1086]"

definition ingredients_required :: str where
  "ingredients_required =
     [1048, 1085, 1075, 1088, 1077, 1076, 1080, 1077, 1085, 1090, 1099, 32,
      1086, 1073, 1103, 1079, 1072, 1090, 1077, 1083, 1100, 1085, 1099]"

fun validate :: "Validator \<Rightarrow> Recipe \<Rightarrow> error + unit" where
  "validate (Validator next_validator) recipe =
     (case next_validator of None \<Rightarrow> Inr () | Some v \<Rightarrow> validate v recipe)"
| "validate (NameValidator next_validator) recipe =
     (if strip (name recipe) = [] then Inl (ValueError name_required)
      else (case next_validator of None \<Rightarrow> Inr () | Some v \<Rightarrow> validate v recipe))"
| "validate (IngredientsValidator next_validator) recipe =
     (if ingredients recipe = [] then Inl (ValueError ingredients_required)
      else (case next_validator of None \<Rightarrow> Inr () | Some v \<Rightarrow> validate v recipe))"

text \<open>The chain the dialogs build: \<^verbatim>\<open>NameValidator(IngredientsValidator())\<close>.\<close>

definition name_then_ingredients :: Validator where
  "name_then_ingredients = NameValidator (Some (IngredientsValidator None))"

subsection \<open>Two recipes with one sort key\<close>

text \<open>
  Two distinct recipe objects, \<^verbatim>\<open>Recipe("Soup", ["water"], "", 10)\<close> behind
  reference 0 and \<^verbatim>\<open>Recipe("soup", ["stock"], "", 10)\<close> behind every other
  reference, and the manager after both have been added.
\<close>

definition soup_store :: store where
  "soup_store r =
     (if r = 0
      then \<lparr>name = lit ''Soup'', ingredients = [lit ''water''], instructions = [],
            preparation_time = 10\<rparr>
      else \<lparr>name = lit ''soup'', ingredients = [lit ''stock''], instructions = [],
            preparation_time = 10\<rparr>)"

definition soup_manager :: RecipeManager where
  "soup_manager =
     \<lparr>recipes = [0, 1], observers = [], sort_strategy = SortByName, update_calls = []\<rparr>"

subsection \<open>A recipe with a Greek name\<close>



subsection \<open>The two recipes of the specification's scenario\<close>

text \<open>
  \<^verbatim>\<open>Recipe("Carbonara", ["Pasta","Eggs","Bacon"], "Boil pasta...", 20)\<close> behind
  reference 0 and \<^verbatim>\<open>Recipe("Caesar", ["Lettuce","Chicken","Croutons"], "Toss...", 15)\<close>
  behind every other reference.
\<close>

definition scenario_store :: store where
  "scenario_store r =
     (if r = 0
      then \<lparr>name = lit ''Carbonara'',
            ingredients = [lit ''Pasta'', lit ''Eggs'', lit ''Bacon''],
            instructions = lit ''Boil pasta...'', preparation_time = 20\<rparr>
      else \<lparr>name = lit ''Caesar'',
            ingredients = [lit ''Lettuce'', lit ''Chicken'', lit ''Croutons''],
            instructions = lit ''Toss...'', preparation_time = 15\<rparr>)"

definition scenario_manager :: RecipeManager where
  "scenario_manager =
     \<lparr>recipes = [1, 0], observers = [], sort_strategy = SortByPreparationTime,
      update_calls = []\<rparr>"

section \<open>lab2: the recipe catalogue\<close>

subsection \<open>Ingredients and composite recipes\<close>

text \<open>
  A recipe is a composite of components, each an ingredient or a recipe. The field
  \<open>id2\<close> is the recipe's \<^verbatim>\<open>id\<close>, \<open>name2\<close> its \<^verbatim>\<open>name\<close>; category and
  owner may be None.
\<close>

datatype Ingredient = Ingredient (ingredient_name: str)

datatype Recipe2 =
  Recipe2 (id2: str) (name2: str) (category: "str option") (owner: "str option")
    (components: "RecipeComponent list")
and RecipeComponent = IngredientLeaf Ingredient | RecipeComposite Recipe2

text \<open>What an f-string puts for a value that is a string or None.\<close>

definition format_value :: "str option \<Rightarrow> str" where
  "format_value v = (case v of None \<Rightarrow> lit ''None'' | Some s \<Rightarrow> s)"

text \<open>
  \<^verbatim>\<open>Recipe.get_description\<close>: the header line, then one line per component, added
  by the loop; code point 10 is the line feed.
\<close>

fun Recipe2_get_description :: "Recipe2 \<Rightarrow> str"
  and description_loop :: "str \<Rightarrow> RecipeComponent list \<Rightarrow> str"
  and RecipeComponent_get_description :: "RecipeComponent \<Rightarrow> str" where
  "Recipe2_get_description (Recipe2 i n c ow comps) =
     description_loop (n @ lit '' ('' @ format_value c @ lit '')'' @ [10]) comps"
| "description_loop description [] = description"
| "description_loop description (component # rest) =
     description_loop
       (description @ lit ''- '' @ RecipeComponent_get_description component @ [10]) rest"
| "RecipeComponent_get_description (IngredientLeaf ing) = ingredient_name ing"
| "RecipeComponent_get_description (RecipeComposite r) = Recipe2_get_description r"

fun Recipe2_get_ingredients :: "Recipe2 \<Rightarrow> Ingredient list"
  and ingredients_loop :: "Ingredient list \<Rightarrow> RecipeComponent list \<Rightarrow> Ingredient list"
  and RecipeComponent_get_ingredients :: "RecipeComponent \<Rightarrow> Ingredient list" where
  "Recipe2_get_ingredients (Recipe2 i n c ow comps) = ingredients_loop [] comps"
| "ingredients_loop acc [] = acc"
| "ingredients_loop acc (component # rest) =
     ingredients_loop (acc @ RecipeComponent_get_ingredients component) rest"
| "RecipeComponent_get_ingredients (IngredientLeaf ing) = [ing]"
| "RecipeComponent_get_ingredients (RecipeComposite r) = Recipe2_get_ingredients r"

subsection \<open>ProtectedRecipe\<close>

record ProtectedRecipe =
  recipe :: Recipe2
  user :: str

text \<open>The marker \<^verbatim>\<open>"Dostup zapreshchen"\<close> (access denied), in Cyrillic in the source.\<close>

definition access_denied :: str where
  "access_denied =
     [1044, 1086, 1089, 1090, 1091, 1087, 32, 1079, 1072, 1087, 1088, 1077, 1097, 1077, 1085]"

definition has_access :: "ProtectedRecipe \<Rightarrow> bool" where
  "has_access self =
     (owner (recipe self) = None \<or> owner (recipe self) = Some (user self)
      \<or> user self = lit ''admin'')"

definition ProtectedRecipe_get_description :: "ProtectedRecipe \<Rightarrow> str" where
  "ProtectedRecipe_get_description self =
     (if has_access self then Recipe2_get_description (recipe self) else access_denied)"

definition ProtectedRecipe_get_ingredients :: "ProtectedRecipe \<Rightarrow> Ingredient list" where
  "ProtectedRecipe_get_ingredients self =
     (if has_access self then Recipe2_get_ingredients (recipe self) else [])"

subsection \<open>Repository and manager\<close>

text \<open>
  InMemoryRecipeRepository keeps a dict from recipe id to recipe; \<^verbatim>\<open>dict.get\<close>
  returns None for a key that is not there.
\<close>

record InMemoryRecipeRepository =
  repository_recipes :: "str \<rightharpoonup> Recipe2"

definition InMemoryRecipeRepository_init :: InMemoryRecipeRepository where
  "InMemoryRecipeRepository_init = \<lparr>repository_recipes = Map.empty\<rparr>"

definition InMemoryRecipeRepository_save_recipe ::
    "InMemoryRecipeRepository \<Rightarrow> Recipe2 \<Rightarrow> InMemoryRecipeRepository" where
  "InMemoryRecipeRepository_save_recipe self r =
     self\<lparr>repository_recipes := (repository_recipes self)(id2 r \<mapsto> r)\<rparr>"

definition InMemoryRecipeRepository_get_recipe ::
    "InMemoryRecipeRepository \<Rightarrow> str \<Rightarrow> Recipe2 option" where
  "InMemoryRecipeRepository_get_recipe self recipe_id = repository_recipes self recipe_id"

record RecipeManager2 =
  repository :: InMemoryRecipeRepository

definition RecipeManager2_add_recipe :: "RecipeManager2 \<Rightarrow> Recipe2 \<Rightarrow> RecipeManager2" where
  "RecipeManager2_add_recipe self r =
     self\<lparr>repository := InMemoryRecipeRepository_save_recipe (repository self) r\<rparr>"

text \<open>
  \<^verbatim>\<open>get_recipe\<close> returns a ProtectedRecipe, or Python's None, which is the
  \<open>None\<close> of the option type. A recipe object is always true in a condition.
\<close>

definition RecipeManager2_get_recipe ::
    "RecipeManager2 \<Rightarrow> str \<Rightarrow> str \<Rightarrow> ProtectedRecipe option" where
  "RecipeManager2_get_recipe self recipe_id usr =
     (case InMemoryRecipeRepository_get_recipe (repository self) recipe_id of
        Some r \<Rightarrow> Some \<lparr>recipe = r, user = usr\<rparr>
      | None \<Rightarrow> None)"

text \<open>
  \<^verbatim>\<open>delete_recipe\<close> calls \<^verbatim>\<open>self.repository.delete_recipe(recipe_id)\<close>.
  Neither InMemoryRecipeRepository nor its base class RecipeRepository defines a
  method of that name (they define save_recipe, get_recipe and get_all_recipes), so
  looking the attribute up raises AttributeError before anything is deleted. Code
  point 39 is the single quote of the message.
\<close>

definition no_attribute :: "string \<Rightarrow> string \<Rightarrow> str" where
  "no_attribute cls attr =
     [39] @ lit cls @ [39] @ lit '' object has no attribute '' @ [39] @ lit attr @ [39]"

definition RecipeManager2_delete_recipe :: "RecipeManager2 \<Rightarrow> str \<Rightarrow> error + RecipeManager2" where
  "RecipeManager2_delete_recipe self recipe_id =
     Inl (AttributeError (no_attribute ''InMemoryRecipeRepository'' ''delete_recipe''))"

subsection \<open>A recipe owned by alice\<close>

definition cake :: Recipe2 where
  "cake =
     Recipe2 (lit ''id-1'') (lit ''Cake'') (Some (lit ''Dessert'')) (Some (lit ''alice''))
       [IngredientLeaf (Ingredient (lit ''Flour'')), IngredientLeaf (Ingredient (lit ''Sugar''))]"

section \<open>Properties of lab3\<close>

subsection \<open>Lists\<close>

lemma list_remove_remove1:
  "x \<in> set xs \<Longrightarrow> list_remove xs x = Inr (remove1 x xs)"
  by (induction xs) auto

lemma list_remove_absent:
  "x \<notin> set xs \<Longrightarrow> \<exists>e. list_remove xs x = Inl e"
  by (induction xs) auto

lemma list_index_present:
  "x \<in> set xs \<Longrightarrow> \<exists>i. list_index xs x = Inr i \<and> i < length xs \<and> xs ! i = x"
  by (induction xs) auto

lemma notify_observers_calls:
  "update_calls (notify_observers m) = update_calls m @ observers m"
proof -
  have "foldl (\<lambda>calls ob. calls @ [ob]) acc obs = acc @ obs" for acc obs :: "observer list"
    by (induction obs arbitrary: acc) auto
  then show ?thesis by (simp add: notify_observers_def)
qed

lemma notify_observers_fields [simp]:
  "recipes (notify_observers m) = recipes m"
  "observers (notify_observers m) = observers m"
  "sort_strategy (notify_observers m) = sort_strategy m"
  by (simp_all add: notify_observers_def)

subsection \<open>Lower case\<close>

lemma do_lower_plain: "931 \<notin> set s \<Longrightarrow> do_lower before s = concat (map lower_full s)"
  by (induction s arbitrary: before) (auto simp: lower_ucs4_def)

lemma lower_plain: "no_special_casing s \<Longrightarrow> lower s = map lower_cp s"
proof -
  assume a: "no_special_casing s"
  then have "931 \<notin> set s" "304 \<notin> set s"
    by (auto simp: no_special_casing_def list_all_iff)
  then have "lower s = concat (map lower_full s)" "\<forall>c\<in>set s. lower_full c = [lower_cp c]"
    by (auto simp: lower_def do_lower_plain lower_full_def)
  then show ?thesis
    by (simp add: concat_map_singleton cong: map_cong)
qed

lemma lower_cp_ascii: "c < 128 \<Longrightarrow> lower_cp c = (if 65 \<le> c \<and> c \<le> 90 then c + 32 else c)"
  by (simp add: lower_cp_def lower_table_def)

lemma lower_ascii:
  "list_all (\<lambda>c. c < 128) s \<Longrightarrow>
     lower s = map (\<lambda>c. if 65 \<le> c \<and> c \<le> 90 then c + 32 else c) s"
proof -
  assume a: "list_all (\<lambda>c. c < 128) s"
  then have "no_special_casing s"
    by (auto simp: no_special_casing_def list_all_iff)
  then have "lower s = map lower_cp s"
    by (rule lower_plain)
  also have "\<dots> = map (\<lambda>c. if 65 \<le> c \<and> c \<le> 90 then c + 32 else c) s"
    using a by (intro map_cong refl lower_cp_ascii) (simp add: list_all_iff)
  finally show ?thesis .
qed

subsection \<open>The order of the collection\<close>

lemma precedes_SortByName:
  "precedes h SortByName = (\<lambda>a b. lower (name (h a)) \<le> lower (name (h b)))"
  by (intro ext) simp

lemma precedes_SortByPreparationTime:
  "precedes h SortByPreparationTime =
     (\<lambda>a b. (preparation_time (h a), lower (name (h a)))
              \<le> (preparation_time (h b), lower (name (h b))))"
  by (intro ext) (auto simp: less_eq_prod_def)

lemma sorted_wrt_precedes:
  "sorted_wrt (precedes h s) (SortStrategy_sort h s rs)"
proof (cases s)
  case SortByName
  have "sorted (map (\<lambda>r. lower (name (h r))) (sort_key (\<lambda>r. lower (name (h r))) rs))"
    by (rule sorted_sort_key)
  then show ?thesis
    unfolding SortByName precedes_SortByName by (simp add: sorted_map)
next
  case SortByPreparationTime
  let ?k = "\<lambda>r. (preparation_time (h r), lower (name (h r)))"
  have "sorted (map ?k (sort_key ?k rs))"
    by (rule sorted_sort_key)
  then show ?thesis
    unfolding SortByPreparationTime precedes_SortByPreparationTime by (simp add: sorted_map)
qed

lemma sorted_wrt_remove1:
  "sorted_wrt P xs \<Longrightarrow> sorted_wrt P (remove1 x xs)"
  by (induction xs) (auto dest: notin_set_remove1)

lemma ordered_add_recipe: "ordered h (add_recipe h m r)"
  by (simp add: ordered_def add_recipe_def sort_recipes_def sorted_wrt_precedes)

lemma ordered_set_sort_strategy: "ordered h (set_sort_strategy h m s)"
  by (simp add: ordered_def set_sort_strategy_def sort_recipes_def sorted_wrt_precedes)

lemma remove_recipe_present:
  "r \<in> set (recipes m) \<Longrightarrow>
     remove_recipe m r = Inr (notify_observers (m\<lparr>recipes := remove1 r (recipes m)\<rparr>))"
  by (simp add: remove_recipe_def list_remove_remove1)

lemma remove_recipe_absent:
  "r \<notin> set (recipes m) \<Longrightarrow> remove_recipe m r = Inr m"
  by (simp add: remove_recipe_def)

lemma ordered_remove_recipe:
  assumes "ordered h m"
  shows "\<exists>m'. remove_recipe m r = Inr m' \<and> ordered h m'"
proof (cases "r \<in> set (recipes m)")
  case True
  have "ordered h (notify_observers (m\<lparr>recipes := remove1 r (recipes m)\<rparr>))"
    using assms by (simp add: ordered_def sorted_wrt_remove1)
  with remove_recipe_present [OF True] show ?thesis by simp
next
  case False
  with assms remove_recipe_absent [OF False] show ?thesis by simp
qed

lemma update_recipe_present:
  assumes "old \<in> set (recipes m)"
  shows "\<exists>i. update_recipe h m old new =
           Inr (notify_observers (sort_recipes h (m\<lparr>recipes := (recipes m)[i := new]\<rparr>)))"
proof -
  obtain i where "list_index (recipes m) old = Inr i" "i < length (recipes m)"
    using list_index_present [OF assms] by blast
  then have "update_recipe h m old new =
      Inr (notify_observers (sort_recipes h (m\<lparr>recipes := (recipes m)[i := new]\<rparr>)))"
    using assms by (simp add: update_recipe_def list_setitem_def)
  then show ?thesis ..
qed

lemma update_recipe_absent:
  "old \<notin> set (recipes m) \<Longrightarrow> update_recipe h m old new = Inr m"
  by (simp add: update_recipe_def)

lemma ordered_sort_recipes: "ordered h (notify_observers (sort_recipes h m))"
  by (simp add: ordered_def sort_recipes_def sorted_wrt_precedes)

lemma ordered_update_recipe:
  assumes "ordered h m"
  shows "\<exists>m'. update_recipe h m old new = Inr m' \<and> ordered h m'"
proof (cases "old \<in> set (recipes m)")
  case True
  from update_recipe_present [OF True, of h new] obtain i where
    "update_recipe h m old new =
       Inr (notify_observers (sort_recipes h (m\<lparr>recipes := (recipes m)[i := new]\<rparr>)))"
    by blast
  then show ?thesis using ordered_sort_recipes by simp
next
  case False
  with assms update_recipe_absent [OF False] show ?thesis by simp
qed

lemma ordered_add_observer: "ordered h m \<Longrightarrow> ordered h (add_observer m ob)"
  by (simp add: ordered_def add_observer_def)

lemma ordered_call:
  assumes "ordered h m"
  shows "\<exists>m'. call h m c = Inr m' \<and> ordered h m'"
proof (cases c)
  case (AddRecipe r)
  then show ?thesis by (simp add: ordered_add_recipe)
next
  case (RemoveRecipe r)
  then show ?thesis using ordered_remove_recipe [OF assms] by simp
next
  case (UpdateRecipe old new)
  then show ?thesis using ordered_update_recipe [OF assms] by simp
next
  case (SetSortStrategy s)
  then show ?thesis by (simp add: ordered_set_sort_strategy)
next
  case (AddObserver ob)
  then show ?thesis using assms by (simp add: ordered_add_observer)
qed

lemma ordered_calls:
  "ordered h m \<Longrightarrow> \<exists>m'. calls h m cs = Inr m' \<and> ordered h m'"
proof (induction cs arbitrary: m)
  case Nil
  then show ?case by simp
next
  case (Cons c cs)
  from ordered_call [OF Cons.prems] obtain m1 where "call h m c = Inr m1" "ordered h m1"
    by blast
  with Cons.IH [of m1] show ?case by simp
qed

lemma ordered_init: "ordered h RecipeManager_init"
  by (simp add: ordered_def RecipeManager_init_def)

text \<open>
  C1. Starting from the empty manager, every sequence of calls of add_recipe,
  remove_recipe, update_recipe, set_sort_strategy (and add_observer) runs to its end
  without raising and leaves the collection ordered by the strategy that is then active:
  by name without regard to case under SortByName, by preparation time and then by name
  without regard to case under SortByPreparationTime. This includes remove_recipe, which
  does not sort again.
\<close>

theorem collection_ordered_after_calls:
  "\<exists>m. calls h RecipeManager_init cs = Inr m \<and> ordered h m"
  by (rule ordered_calls [OF ordered_init])

theorem collection_ordered_after_calls_witness:
  "calls scenario_store RecipeManager_init
     [AddRecipe 0, AddRecipe 1, SetSortStrategy SortByPreparationTime] = Inr scenario_manager
   \<and> ordered scenario_store scenario_manager"
proof -
  have "calls scenario_store RecipeManager_init
      [AddRecipe 0, AddRecipe 1, SetSortStrategy SortByPreparationTime] = Inr scenario_manager"
    by (simp add: scenario_store_def scenario_manager_def RecipeManager_init_def add_recipe_def
        set_sort_strategy_def sort_recipes_def notify_observers_def lower_ascii
        lit_def less_eq_prod_def)
  with collection_ordered_after_calls [of scenario_store
      "[AddRecipe 0, AddRecipe 1, SetSortStrategy SortByPreparationTime]"]
  show ?thesis by simp
qed

subsection \<open>Adding a recipe and undoing it\<close>

lemma insort_sorted_append:
  "sorted (map f xs) \<Longrightarrow>
     foldr (insort_key f) xs [x] = takeWhile (\<lambda>y. f y \<le> f x) xs @ x # dropWhile (\<lambda>y. f y \<le> f x) xs"
proof (induction xs)
  case Nil
  then show ?case by simp
next
  case (Cons y ys)
  then have le: "\<forall>z\<in>set ys. f y \<le> f z" and srt: "sorted (map f ys)" by auto
  note IH = Cons.IH [OF srt]
  show ?case
  proof (cases "f y \<le> f x")
    case True
    have "\<forall>z\<in>set (foldr (insort_key f) ys [x]). f y \<le> f z"
      using le True by (auto simp: IH dest: set_takeWhileD set_dropWhileD)
    then have "insort_key f y (foldr (insort_key f) ys [x]) = y # foldr (insort_key f) ys [x]"
      by (rule insort_is_Cons)
    then show ?thesis using True by (simp add: IH)
  next
    case False
    then have "\<forall>z\<in>set ys. \<not> f z \<le> f x" using le by auto
    then have tw: "takeWhile (\<lambda>y. f y \<le> f x) ys = []" "dropWhile (\<lambda>y. f y \<le> f x) ys = ys"
      by (cases ys; simp)+
    have "insort_key f y ys = y # ys"
      using le by (rule insort_is_Cons)
    then show ?thesis using False by (simp add: IH tw)
  qed
qed

lemma remove1_sort_key_append:
  assumes "sorted (map f xs)" "x \<notin> set xs"
  shows "remove1 x (sort_key f (xs @ [x])) = xs"
proof -
  have "sort_key f (xs @ [x]) = foldr (insort_key f) xs [x]"
    by (simp add: sort_key_def)
  also have "\<dots> = takeWhile (\<lambda>y. f y \<le> f x) xs @ x # dropWhile (\<lambda>y. f y \<le> f x) xs"
    by (rule insort_sorted_append [OF assms(1)])
  finally show ?thesis
    using assms(2) by (auto simp: remove1_append dest: set_takeWhileD)
qed

lemma ordered_sorted_SortByName:
  "sort_strategy m = SortByName \<Longrightarrow>
     ordered h m = sorted (map (\<lambda>r. lower (name (h r))) (recipes m))"
  by (simp add: ordered_def precedes_SortByName sorted_map)

lemma ordered_sorted_SortByPreparationTime:
  "sort_strategy m = SortByPreparationTime \<Longrightarrow>
     ordered h m = sorted (map (\<lambda>r. (preparation_time (h r), lower (name (h r)))) (recipes m))"
  by (simp add: ordered_def precedes_SortByPreparationTime sorted_map)

lemma remove1_sort_appended:
  assumes "ordered h m" "r \<notin> set (recipes m)"
  shows "remove1 r (SortStrategy_sort h (sort_strategy m) (recipes m @ [r])) = recipes m"
proof (cases "sort_strategy m")
  case SortByName
  with assms show ?thesis
    by (simp add: ordered_sorted_SortByName remove1_sort_key_append)
next
  case SortByPreparationTime
  with assms show ?thesis
    by (simp add: ordered_sorted_SortByPreparationTime remove1_sort_key_append)
qed

lemma set_SortStrategy_sort [simp]: "set (SortStrategy_sort h s rs) = set rs"
  by (cases s) simp_all

text \<open>
  C2, as amended. In a manager whose collection is ordered by the active strategy, for a
  recipe that is not yet in the collection, executing AddRecipeCommand and then undoing
  it raises nothing and gives back the collection as it was: the same recipes in the
  same order. The strategy and the observers are as before too.
\<close>

theorem add_command_execute_undo:
  assumes "ordered h m" and "r \<notin> set (recipes m)"
  shows "\<exists>m1 m2. execute h m (AddRecipeCommand r) = Inr m1
           \<and> undo h m1 (AddRecipeCommand r) = Inr m2
           \<and> recipes m2 = recipes m \<and> sort_strategy m2 = sort_strategy m
           \<and> observers m2 = observers m"
proof -
  let ?m1 = "add_recipe h m r"
  have in1: "r \<in> set (recipes ?m1)"
    by (simp add: add_recipe_def sort_recipes_def)
  have rs: "remove1 r (recipes ?m1) = recipes m"
    using remove1_sort_appended [OF assms] by (simp add: add_recipe_def sort_recipes_def)
  have "undo h ?m1 (AddRecipeCommand r)
          = Inr (notify_observers (?m1\<lparr>recipes := remove1 r (recipes ?m1)\<rparr>))"
    using remove_recipe_present [OF in1] by simp
  moreover have "sort_strategy ?m1 = sort_strategy m" "observers ?m1 = observers m"
    by (simp_all add: add_recipe_def sort_recipes_def)
  ultimately show ?thesis
    using rs by simp
qed

theorem add_command_execute_undo_witness:
  "ordered soup_store (soup_manager\<lparr>recipes := [1, 2]\<rparr>)
   \<and> 0 \<notin> set (recipes (soup_manager\<lparr>recipes := [1, 2]\<rparr>))
   \<and> (\<exists>m1 m2. execute soup_store (soup_manager\<lparr>recipes := [1, 2]\<rparr>) (AddRecipeCommand 0) = Inr m1
         \<and> undo soup_store m1 (AddRecipeCommand 0) = Inr m2
         \<and> recipes m2 = [1, 2])"
proof -
  let ?m = "soup_manager\<lparr>recipes := [1, 2]\<rparr>"
  have a: "ordered soup_store ?m"
    by (simp add: ordered_def soup_store_def soup_manager_def)
  have b: "0 \<notin> set (recipes ?m)"
    by simp
  from add_command_execute_undo [OF a b] a b show ?thesis
    by auto
qed

text \<open>
  C2, as stated, fails for a recipe that is already in the collection. After the recipes
  0 and 1 of \<open>soup_store\<close>, which have one sort key, have been added, the collection
  is \<open>[0, 1]\<close>. Adding recipe 0 again gives \<open>[0, 1, 0]\<close>, since the sort is stable;
  the undo removes the first occurrence and leaves \<open>[1, 0]\<close>.
\<close>

theorem add_command_execute_undo_counterexample:
  "calls soup_store RecipeManager_init [AddRecipe 0, AddRecipe 1] = Inr soup_manager
   \<and> ordered soup_store soup_manager
   \<and> execute soup_store soup_manager (AddRecipeCommand 0)
       = Inr (soup_manager\<lparr>recipes := [0, 1, 0]\<rparr>)
   \<and> undo soup_store (soup_manager\<lparr>recipes := [0, 1, 0]\<rparr>) (AddRecipeCommand 0)
       = Inr (soup_manager\<lparr>recipes := [1, 0]\<rparr>)
   \<and> recipes (soup_manager\<lparr>recipes := [1, 0]\<rparr>) \<noteq> recipes soup_manager"
proof -
  have k: "lower (lit ''Soup'') = lower (lit ''soup'')"
    by (simp add: lower_ascii lit_def)
  have "calls soup_store RecipeManager_init [AddRecipe 0, AddRecipe 1] = Inr soup_manager"
    by (simp add: soup_store_def soup_manager_def RecipeManager_init_def add_recipe_def
        sort_recipes_def notify_observers_def k)
  moreover have "ordered soup_store soup_manager"
    by (simp add: ordered_def soup_store_def soup_manager_def k)
  moreover have "execute soup_store soup_manager (AddRecipeCommand 0)
       = Inr (soup_manager\<lparr>recipes := [0, 1, 0]\<rparr>)"
    by (simp add: soup_store_def soup_manager_def add_recipe_def sort_recipes_def
        notify_observers_def k)
  moreover have "undo soup_store (soup_manager\<lparr>recipes := [0, 1, 0]\<rparr>) (AddRecipeCommand 0)
       = Inr (soup_manager\<lparr>recipes := [1, 0]\<rparr>)"
    by (simp add: soup_manager_def remove_recipe_def notify_observers_def)
  moreover have "recipes (soup_manager\<lparr>recipes := [1, 0]\<rparr>) \<noteq> recipes soup_manager"
    by (simp add: soup_manager_def)
  ultimately show ?thesis by blast
qed

subsection \<open>Removing a recipe\<close>

text \<open>
  C3. remove_recipe never raises. If the recipe is in the collection, its first
  occurrence, found by identity, is deleted, the rest of the collection keeps its order,
  and every registered observer gets one call of update(), in the order of registration.
  If the recipe is not in the collection the call does nothing: the manager is as it
  was, and no observer is called.
\<close>

theorem remove_recipe_by_identity:
  "remove_recipe m r =
     Inr (if r \<in> set (recipes m)
          then m\<lparr>recipes := remove1 r (recipes m), update_calls := update_calls m @ observers m\<rparr>
          else m)"
proof (cases "r \<in> set (recipes m)")
  case True
  have "notify_observers (m\<lparr>recipes := remove1 r (recipes m)\<rparr>)
          = m\<lparr>recipes := remove1 r (recipes m), update_calls := update_calls m @ observers m\<rparr>"
    using notify_observers_calls [of "m\<lparr>recipes := remove1 r (recipes m)\<rparr>"]
    by (simp add: notify_observers_def)
  with True remove_recipe_present [OF True] show ?thesis by simp
next
  case False
  with remove_recipe_absent [OF False] show ?thesis by simp
qed

theorem remove_recipe_by_identity_witness:
  "soup_store 1 = soup_store 2
   \<and> remove_recipe (soup_manager\<lparr>recipes := [1, 2, 1], observers := [7, 8]\<rparr>) 2
       = Inr (soup_manager\<lparr>recipes := [1, 1], observers := [7, 8], update_calls := [7, 8]\<rparr>)
   \<and> remove_recipe (soup_manager\<lparr>recipes := [1], observers := [7, 8]\<rparr>) 2
       = Inr (soup_manager\<lparr>recipes := [1], observers := [7, 8]\<rparr>)"
  using remove_recipe_by_identity [of "soup_manager\<lparr>recipes := [1, 2, 1], observers := [7, 8]\<rparr>" 2]
    remove_recipe_by_identity [of "soup_manager\<lparr>recipes := [1], observers := [7, 8]\<rparr>" 2]
  by (simp add: soup_manager_def soup_store_def)

subsection \<open>Keyword search\<close>












text \<open>
  C10. search_recipes only reads: the manager it leaves is the manager it was given, with
  the same collection, strategy and observers, and with no further call of update().
\<close>

theorem search_recipes_read_only:
  "snd (search_recipes h m q) = m
   \<and> recipes (snd (search_recipes h m q)) = recipes m
   \<and> sort_strategy (snd (search_recipes h m q)) = sort_strategy m
   \<and> observers (snd (search_recipes h m q)) = observers m
   \<and> update_calls (snd (search_recipes h m q)) = update_calls m"
  by (simp add: search_recipes_def)

subsection \<open>Validators\<close>

lemma strip_empty_iff: "(strip s = []) = list_all isspace_cp s"
proof -
  have "(dropWhile P xs = []) = list_all P xs" for P :: "nat \<Rightarrow> bool" and xs
    by (induction xs) auto
  moreover have "list_all P (dropWhile P xs) = list_all P xs" for P :: "nat \<Rightarrow> bool" and xs
    by (induction xs) auto
  ultimately show ?thesis
    by (simp add: strip_def list_all_iff)
qed

text \<open>
  C7. The chain NameValidator, then IngredientsValidator, succeeds exactly when the name
  is not empty after stripping and the list of ingredients is not empty. A link whose
  own check fails raises with its own reason whatever its successor is, so the successor
  has no part in the outcome. On \<^verbatim>\<open>Recipe("", [], "", 0)\<close>, which fails both
  checks, the chain raises with the reason of the name check.
\<close>

theorem validator_chain:
  "validate name_then_ingredients r
     = (if strip (name r) = [] then Inl (ValueError name_required)
        else if ingredients r = [] then Inl (ValueError ingredients_required)
        else Inr ())
   \<and> (validate name_then_ingredients r = Inr ())
       = (strip (name r) \<noteq> [] \<and> ingredients r \<noteq> [])
   \<and> (strip (name r) = [] \<longrightarrow>
        validate (NameValidator successor) r = Inl (ValueError name_required))
   \<and> (ingredients r = [] \<longrightarrow>
        validate (IngredientsValidator successor) r = Inl (ValueError ingredients_required))
   \<and> name_required \<noteq> ingredients_required"
  by (simp add: name_then_ingredients_def name_required_def ingredients_required_def)

theorem validator_chain_witness:
  "strip (name \<lparr>name = [], ingredients = [], instructions = [], preparation_time = 0\<rparr>) = []
   \<and> ingredients \<lparr>name = [], ingredients = [], instructions = [], preparation_time = 0\<rparr> = []
   \<and> validate name_then_ingredients
        \<lparr>name = [], ingredients = [], instructions = [], preparation_time = 0\<rparr>
       = Inl (ValueError name_required)
   \<and> validate (NameValidator (Some (IngredientsValidator None)))
        \<lparr>name = [], ingredients = [], instructions = [], preparation_time = 0\<rparr>
       = Inl (ValueError name_required)
   \<and> validate (IngredientsValidator None)
        \<lparr>name = [], ingredients = [], instructions = [], preparation_time = 0\<rparr>
       = Inl (ValueError ingredients_required)"
  using validator_chain [of "\<lparr>name = [], ingredients = [], instructions = [], preparation_time = 0\<rparr>"
      "Some (IngredientsValidator None)"]
    validator_chain [of "\<lparr>name = [], ingredients = [], instructions = [], preparation_time = 0\<rparr>"
      None]
  by (simp add: strip_def)

subsection \<open>Mementos\<close>

text \<open>
  C8. Restoring a recipe from the memento it has just created leaves the recipe as it
  was, in its name, ingredients, instructions and preparation time.
\<close>

theorem memento_round_trip:
  "restore_from_memento r (create_memento r) = r
   \<and> name (restore_from_memento r (create_memento r)) = name r
   \<and> ingredients (restore_from_memento r (create_memento r)) = ingredients r
   \<and> instructions (restore_from_memento r (create_memento r)) = instructions r
   \<and> preparation_time (restore_from_memento r (create_memento r)) = preparation_time r"
  by (simp add: restore_from_memento_def create_memento_def)

subsection \<open>Removing an observer\<close>

lemma remove_observer_unregistered:
  "ob \<notin> set (observers m) \<Longrightarrow> \<exists>e. remove_observer m ob = Inl e"
  using list_remove_absent [of ob "observers m"] by (auto simp: remove_observer_def)

section \<open>Properties of lab2\<close>

subsection \<open>ProtectedRecipe\<close>

lemma description_loop_last:
  "d \<noteq> [] \<Longrightarrow> last d = 10 \<Longrightarrow>
     description_loop d cs \<noteq> [] \<and> last (description_loop d cs) = 10"
  by (induction cs arbitrary: d) simp_all

lemma Recipe2_get_description_last:
  "Recipe2_get_description r \<noteq> [] \<and> last (Recipe2_get_description r) = 10"
  by (cases r) (simp add: description_loop_last)

lemma description_not_access_denied: "Recipe2_get_description r \<noteq> access_denied"
proof
  assume "Recipe2_get_description r = access_denied"
  then have "last (Recipe2_get_description r) = last access_denied"
    by simp
  then show False
    by (simp add: Recipe2_get_description_last access_denied_def)
qed

text \<open>
  C6. has_access holds exactly when the owner of the wrapped recipe is None, or is the
  user, or the user is "admin". With access, get_description and get_ingredients return
  what the wrapped recipe returns; without it they return the access-denied marker and
  the empty list, and raise nothing. The marker is never a description of a recipe, so
  get_description returns it exactly when access is denied.
\<close>

theorem protected_recipe_access:
  "has_access p
     = (owner (recipe p) = None \<or> owner (recipe p) = Some (user p) \<or> user p = lit ''admin'')
   \<and> ProtectedRecipe_get_description p
       = (if has_access p then Recipe2_get_description (recipe p) else access_denied)
   \<and> ProtectedRecipe_get_ingredients p
       = (if has_access p then Recipe2_get_ingredients (recipe p) else [])
   \<and> (ProtectedRecipe_get_description p = access_denied) = (\<not> has_access p)"
  by (simp add: has_access_def ProtectedRecipe_get_description_def
      ProtectedRecipe_get_ingredients_def description_not_access_denied)

theorem protected_recipe_access_witness:
  "has_access \<lparr>recipe = cake, user = lit ''alice''\<rparr>
   \<and> has_access \<lparr>recipe = cake, user = lit ''admin''\<rparr>
   \<and> \<not> has_access \<lparr>recipe = cake, user = lit ''bob''\<rparr>
   \<and> ProtectedRecipe_get_description \<lparr>recipe = cake, user = lit ''bob''\<rparr> = access_denied
   \<and> ProtectedRecipe_get_ingredients \<lparr>recipe = cake, user = lit ''bob''\<rparr> = []
   \<and> ProtectedRecipe_get_ingredients \<lparr>recipe = cake, user = lit ''alice''\<rparr>
       = [Ingredient (lit ''Flour''), Ingredient (lit ''Sugar'')]
   \<and> ProtectedRecipe_get_description \<lparr>recipe = cake, user = lit ''alice''\<rparr>
       = lit ''Cake (Dessert)'' @ [10] @ lit ''- Flour'' @ [10] @ lit ''- Sugar'' @ [10]"
proof -
  let ?alice = "\<lparr>recipe = cake, user = lit ''alice''\<rparr>"
  let ?admin = "\<lparr>recipe = cake, user = lit ''admin''\<rparr>"
  let ?bob = "\<lparr>recipe = cake, user = lit ''bob''\<rparr>"
  have acc: "has_access ?alice" "has_access ?admin" "\<not> has_access ?bob"
    using protected_recipe_access [of ?alice, THEN conjunct1]
      protected_recipe_access [of ?admin, THEN conjunct1]
      protected_recipe_access [of ?bob, THEN conjunct1]
    by (simp_all add: cake_def lit_def)
  have ingredients: "Recipe2_get_ingredients cake
      = [Ingredient (lit ''Flour''), Ingredient (lit ''Sugar'')]"
    by (simp add: cake_def)
  have description: "Recipe2_get_description cake
      = lit ''Cake (Dessert)'' @ [10] @ lit ''- Flour'' @ [10] @ lit ''- Sugar'' @ [10]"
    by (simp add: cake_def lit_def format_value_def)
  have bob_description: "ProtectedRecipe_get_description ?bob
      = (if has_access ?bob then Recipe2_get_description (recipe ?bob) else access_denied)"
    and bob_ingredients: "ProtectedRecipe_get_ingredients ?bob
      = (if has_access ?bob then Recipe2_get_ingredients (recipe ?bob) else [])"
    using protected_recipe_access [of ?bob] by blast+
  have alice_description: "ProtectedRecipe_get_description ?alice
      = (if has_access ?alice then Recipe2_get_description (recipe ?alice) else access_denied)"
    and alice_ingredients: "ProtectedRecipe_get_ingredients ?alice
      = (if has_access ?alice then Recipe2_get_ingredients (recipe ?alice) else [])"
    using protected_recipe_access [of ?alice] by blast+
  have "ProtectedRecipe_get_description ?bob = access_denied"
    unfolding bob_description using acc(3) by simp
  moreover have "ProtectedRecipe_get_ingredients ?bob = []"
    unfolding bob_ingredients using acc(3) by simp
  moreover have "ProtectedRecipe_get_ingredients ?alice
      = [Ingredient (lit ''Flour''), Ingredient (lit ''Sugar'')]"
    unfolding alice_ingredients using acc(1) ingredients by simp
  moreover have "ProtectedRecipe_get_description ?alice
      = lit ''Cake (Dessert)'' @ [10] @ lit ''- Flour'' @ [10] @ lit ''- Sugar'' @ [10]"
    unfolding alice_description using acc(1) description by simp
  ultimately show ?thesis
    using acc by blast
qed

subsection \<open>Looking a recipe up\<close>

text \<open>
  C9, as amended. For a recipe id that is not stored in the repository,
  RecipeManager.get_recipe raises nothing and returns Python's None, which the caller
  has to test for; lab2 has no null object.
\<close>

theorem get_recipe_miss_is_None:
  assumes "recipe_id \<notin> dom (repository_recipes (repository m))"
  shows "RecipeManager2_get_recipe m recipe_id usr = None"
  using assms
  by (auto simp: RecipeManager2_get_recipe_def InMemoryRecipeRepository_get_recipe_def
      split: option.splits)

theorem get_recipe_miss_is_None_witness:
  "lit ''42'' \<notin> dom (repository_recipes (repository
       (RecipeManager2_add_recipe \<lparr>repository = InMemoryRecipeRepository_init\<rparr> cake)))
   \<and> RecipeManager2_get_recipe
        (RecipeManager2_add_recipe \<lparr>repository = InMemoryRecipeRepository_init\<rparr> cake)
        (lit ''42'') (lit ''user1'') = None"
proof -
  have a: "lit ''42'' \<notin> dom (repository_recipes (repository
       (RecipeManager2_add_recipe \<lparr>repository = InMemoryRecipeRepository_init\<rparr> cake)))"
    by (simp add: RecipeManager2_add_recipe_def InMemoryRecipeRepository_save_recipe_def
        InMemoryRecipeRepository_init_def cake_def lit_def)
  from get_recipe_miss_is_None [OF a] a show ?thesis by simp
qed

text \<open>
  C9, as stated, fails: on the empty repository the lookup of the id "42" for the user
  "user1" is None and not a recipe object.
\<close>

theorem get_recipe_miss_counterexample:
  "RecipeManager2_get_recipe \<lparr>repository = InMemoryRecipeRepository_init\<rparr>
     (lit ''42'') (lit ''user1'') = None"
  by (simp add: RecipeManager2_get_recipe_def InMemoryRecipeRepository_get_recipe_def
      InMemoryRecipeRepository_init_def)

subsection \<open>Operations on something that is not there\<close>

text \<open>
  C4. The claim does not hold of the code. In lab2, RecipeManager.delete_recipe over an
  InMemoryRecipeRepository raises AttributeError for an id that is not stored and for
  one that is. In lab3, remove_observer on a manager where the observer was never
  registered raises the ValueError of \<^verbatim>\<open>list.remove\<close>.
\<close>

theorem missing_element_raises:
  "RecipeManager2_delete_recipe \<lparr>repository = InMemoryRecipeRepository_init\<rparr> (lit ''42'')
     = Inl (AttributeError (no_attribute ''InMemoryRecipeRepository'' ''delete_recipe''))
   \<and> RecipeManager2_delete_recipe
        (RecipeManager2_add_recipe \<lparr>repository = InMemoryRecipeRepository_init\<rparr> cake)
        (id2 cake)
     = Inl (AttributeError (no_attribute ''InMemoryRecipeRepository'' ''delete_recipe''))
   \<and> remove_observer RecipeManager_init 0
     = Inl (ValueError (lit ''list.remove(x): x not in list''))"
  by (simp add: RecipeManager2_delete_recipe_def remove_observer_def RecipeManager_init_def)

end
